theory Spec2Isabelle
  imports Complex_Main
begin

section \<open>The request context\<close>

text \<open>
  \<^verbatim>\<open>SimpleAgentExecutor.execute\<close> reads the request context through attribute
  look-ups, most of them guarded by \<^verbatim>\<open>hasattr\<close>. A guarded attribute is an
  \<open>option\<close> field here: \<open>None\<close> stands for "the attribute is absent (or falsy
  where the code tests truthiness)". The attribute \<^verbatim>\<open>request_id\<close> is read
  unguarded, so the context is taken to have it. Python text is a \<open>string\<close> of
  UTF-8 bytes; characters beyond ASCII are written byte by byte.
\<close>

record part =
  part_text :: "string option"

record message =
  msg_content :: "string option"
  msg_parts :: "part list option"

record request =
  req_message :: "message option"

record request_context =
  ctx_request :: "request option"
  request_id :: string

text \<open>Lines 49-52: the texts of the parts that have a non-empty \<^verbatim>\<open>text\<close>.\<close>

fun text_parts :: "part list \<Rightarrow> string list" where
  "text_parts [] = []"
| "text_parts (p # ps) =
     (case part_text p of
        None \<Rightarrow> text_parts ps
      | Some t \<Rightarrow> (if t \<noteq> [] then t # text_parts ps else text_parts ps))"

text \<open>Python's \<^verbatim>\<open>sep.join(xs)\<close>.\<close>

fun join :: "string \<Rightarrow> string list \<Rightarrow> string" where
  "join sep [] = []"
| "join sep [x] = x"
| "join sep (x # y # ys) = x @ sep @ join sep (y # ys)"

definition default_message :: string where
  "default_message = ''Hello World from A2A Agent!''"

text \<open>Lines 43-54: the message text taken from the context.\<close>

definition get_message :: "request_context \<Rightarrow> string" where
  "get_message ctx =
     (case ctx_request ctx of
        None \<Rightarrow> default_message
      | Some r \<Rightarrow>
          (case req_message r of
             None \<Rightarrow> default_message
           | Some m \<Rightarrow>
               (case msg_content m of
                  Some c \<Rightarrow> c
                | None \<Rightarrow>
                    (case msg_parts m of
                       None \<Rightarrow> default_message
                     | Some ps \<Rightarrow>
                         (if ps = [] then default_message
                          else if text_parts ps \<noteq> [] then join '' '' (text_parts ps)
                          else default_message)))))"

section \<open>Events\<close>

text \<open>
  The status dictionaries carry the state as one of the strings \<^verbatim>\<open>"running"\<close>
  and \<^verbatim>\<open>"completed"\<close>; they are the constructors \<open>Running\<close> and \<open>Completed\<close>
  of the task states. The remaining constructors are the other states of a task; the
  executor never writes them. The progress is a float literal that is only passed
  on and compared, never computed with; it is denoted by its decimal value.
\<close>

datatype task_state = Created | Running | Completed | Cancelled | Failed

record artifact_metadata =
  meta_created_at :: string
  meta_size :: int

record artifact =
  artifact_id :: string
  artifact_name :: string
  artifact_type :: string
  artifact_content :: string
  artifact_meta :: artifact_metadata

text \<open>
  The three kinds of event put on the queue: the \<^verbatim>\<open>task-status-update\<close>
  dictionary (taskId, state, progress, message), the value of
  \<^verbatim>\<open>new_agent_text_message(text)\<close>, which is built from the text alone, and the
  \<^verbatim>\<open>artifact-update\<close> dictionary (taskId, artifact).
\<close>

datatype event =
    TaskStatusUpdate string task_state real string
  | AgentTextMessage string
  | ArtifactUpdate string artifact

section \<open>The event queue\<close>

text \<open>
  Modelled from the spec: the class \<^verbatim>\<open>EventQueue\<close> is imported from a library and
  is missing from the sources. The channel is an ordered sequence of events for one
  task, closed at most once; the only error of a publish is \<open>ChannelClosed\<close>.
\<close>

datatype error = ChannelClosed

record event_queue =
  buffer :: "event list"
  closed :: bool

text \<open>Modelled from the spec: the fresh channel bound to a task when it starts.\<close>

definition new_queue :: event_queue where
  "new_queue = \<lparr>buffer = [], closed = False\<rparr>"

text \<open>
  Modelled from the spec: \<^verbatim>\<open>EventQueue.enqueue_event\<close> is the channel's
  \<open>publish(event)\<close>, which appends to the ordered sequence and fails with
  \<open>ChannelClosed\<close> if called after \<open>close()\<close>. A failed publish leaves the
  channel as it is.
\<close>

definition enqueue_event :: "event \<Rightarrow> event_queue \<Rightarrow> (error + unit) \<times> event_queue" where
  "enqueue_event e q =
     (if closed q then (Inl ChannelClosed, q)
      else (Inr (), q\<lparr>buffer := buffer q @ [e]\<rparr>))"

text \<open>
  Modelled from the spec: the channel's \<open>close()\<close>, which is idempotent and marks
  that no further publish is legal.
\<close>

definition close :: "event_queue \<Rightarrow> (error + unit) \<times> event_queue" where
  "close q = (Inr (), q\<lparr>closed := True\<rparr>)"

section \<open>Coroutines\<close>

text \<open>
  \<^verbatim>\<open>execute\<close> and \<^verbatim>\<open>cancel\<close> are coroutines: straight-line sequences of awaited
  operations on the queue, none of which returns a value the code looks at. A
  coroutine is the list of the operations it awaits, in order. Other coroutines
  run only at an \<^verbatim>\<open>await\<close>, that is between two operations of the list.
  \<open>Close\<close> is the channel's \<open>close\<close>; neither coroutine of the executor issues it,
  it is there for the other side of the channel.
\<close>

datatype action = Enqueue event | Sleep real | Close

text \<open>
  Running a list of operations on a queue. An exception ends the run where it is
  raised, with the queue as it is then: nothing in the executor catches it.
\<close>

fun run :: "action list \<Rightarrow> event_queue \<Rightarrow> (error + unit) \<times> event_queue" where
  "run [] q = (Inr (), q)"
| "run (Enqueue e # as) q =
     (case enqueue_event e q of
        (Inl err, q') \<Rightarrow> (Inl err, q')
      | (Inr _, q') \<Rightarrow> run as q')"
| "run (Sleep d # as) q = run as q"
| "run (Close # as) q =
     (case close q of
        (Inl err, q') \<Rightarrow> (Inl err, q')
      | (Inr _, q') \<Rightarrow> run as q')"

section \<open>The executor\<close>

text \<open>Python's \<^verbatim>\<open>str(i)\<close> for a natural number, used by \<^verbatim>\<open>f"artifact_{i}"\<close>.\<close>

fun str_nat :: "nat \<Rightarrow> string" where
  "str_nat n =
     (if n < 10 then [''0123456789'' ! n]
      else str_nat (n div 10) @ [''0123456789'' ! (n mod 10)])"

declare str_nat.simps [simp del]

text \<open>Lines 87-96: the entries of \<^verbatim>\<open>streaming_responses\<close>, tagged by their type.\<close>

datatype response =
    RMessage string
  | RProgress real string
  | RArtifact string

definition streaming_responses :: "string \<Rightarrow> response list" where
  "streaming_responses message =
     [RMessage ([CHR 0xF0, CHR 0x9F, CHR 0x94, CHR 0x8D] @
        '' I'' @ [CHR 0x27] @ ''m analyzing your request and gathering relevant context...''),
      RProgress 0.5 ''Processing data...'',
      RMessage ([CHR 0xF0, CHR 0x9F, CHR 0x93, CHR 0x8A] @
        '' Found relevant information. Generating response...''),
      RProgress 0.7 ''Crafting response...'',
      RMessage ([CHR 0xE2, CHR 0x9C, CHR 0xA8] @ '' **Response to '' @ [CHR 0x27] @ message @
        [CHR 0x27] @ '':**'' @ [CHR 0x0A, CHR 0x0A] @
        ''This is a comprehensive answer that demonstrates the A2A protocol streaming capabilities. The agent can:'' @
        [CHR 0x0A, CHR 0x0A] @
        [CHR 0xE2, CHR 0x80, CHR 0xA2] @ '' Process complex requests'' @ [CHR 0x0A] @
        [CHR 0xE2, CHR 0x80, CHR 0xA2] @ '' Provide real-time updates'' @ [CHR 0x0A] @
        [CHR 0xE2, CHR 0x80, CHR 0xA2] @ '' Stream responses progressively'' @ [CHR 0x0A] @
        [CHR 0xE2, CHR 0x80, CHR 0xA2] @ '' Handle various message types''),
      RArtifact ([CHR 0xF0, CHR 0x9F, CHR 0x93, CHR 0x84] @
        '' Generated artifact: analysis_report.md''),
      RProgress 0.9 ''Finalizing response...'',
      RMessage ([CHR 0xE2, CHR 0x9C, CHR 0x85] @
        '' Task completed successfully! The agent has processed your request and provided a detailed response with streaming updates.'')]"

text \<open>Lines 116-131: the artifact event of loop index \<open>i\<close>.\<close>

definition artifact_event :: "request_context \<Rightarrow> string \<Rightarrow> nat \<Rightarrow> event" where
  "artifact_event ctx message i =
     ArtifactUpdate (request_id ctx)
       \<lparr>artifact_id = ''artifact_'' @ str_nat i,
        artifact_name = ''analysis_report.md'',
        artifact_type = ''text/markdown'',
        artifact_content =
          ''# Analysis Report'' @ [CHR 0x0A, CHR 0x0A] @ ''Request: '' @ message @
          [CHR 0x0A, CHR 0x0A] @
          ''This is a mock artifact generated by the A2A agent to demonstrate artifact streaming capabilities.'',
        artifact_meta = \<lparr>meta_created_at = ''2024-01-01T12:00:00Z'', meta_size = 156\<rparr>\<rparr>"

text \<open>Lines 99-131: one iteration of the loop over \<^verbatim>\<open>enumerate(streaming_responses)\<close>.\<close>

fun loop_body :: "request_context \<Rightarrow> string \<Rightarrow> nat \<times> response \<Rightarrow> action list" where
  "loop_body ctx message (i, RMessage c) = [Sleep 0.6, Enqueue (AgentTextMessage c)]"
| "loop_body ctx message (i, RProgress p m) =
     [Sleep 0.6, Enqueue (TaskStatusUpdate (request_id ctx) Running p m)]"
| "loop_body ctx message (i, RArtifact c) =
     [Sleep 0.6, Enqueue (artifact_event ctx message i)]"

text \<open>Lines 40-144: \<^verbatim>\<open>SimpleAgentExecutor.execute\<close>.\<close>

definition execute :: "request_context \<Rightarrow> action list" where
  "execute ctx =
     (let message = get_message ctx in
      [Enqueue (TaskStatusUpdate (request_id ctx) Running 0.1
          ''Task started - analyzing request''),
       Enqueue (AgentTextMessage ([CHR 0xF0, CHR 0x9F, CHR 0xA4, CHR 0x96] @
          '' Processing your request: '' @ message)),
       Sleep 0.8,
       Enqueue (TaskStatusUpdate (request_id ctx) Running 0.3 ''Gathering information...'')]
      @ concat (map (loop_body ctx message) (enumerate 0 (streaming_responses message)))
      @ [Enqueue (TaskStatusUpdate (request_id ctx) Completed 1.0
          ''Task completed successfully'')])"

text \<open>Lines 146-148: \<^verbatim>\<open>SimpleAgentExecutor.cancel\<close>.\<close>

definition cancel :: "request_context \<Rightarrow> action list" where
  "cancel ctx = [Enqueue (AgentTextMessage ''Task cancelled'')]"

section \<open>Observing a run\<close>

text \<open>The events a coroutine hands to the queue, in order.\<close>

fun enqueued :: "action list \<Rightarrow> event list" where
  "enqueued [] = []"
| "enqueued (Enqueue e # as) = e # enqueued as"
| "enqueued (Sleep d # as) = enqueued as"
| "enqueued (Close # as) = enqueued as"

text \<open>The events a run has added to the queue it started from.\<close>

definition emitted :: "event_queue \<Rightarrow> (error + unit) \<times> event_queue \<Rightarrow> event list" where
  "emitted q r = drop (length (buffer q)) (buffer (snd r))"

fun progress_values :: "event list \<Rightarrow> real list" where
  "progress_values [] = []"
| "progress_values (TaskStatusUpdate t s p m # es) = p # progress_values es"
| "progress_values (AgentTextMessage x # es) = progress_values es"
| "progress_values (ArtifactUpdate t a # es) = progress_values es"

fun status_states :: "event list \<Rightarrow> task_state list" where
  "status_states [] = []"
| "status_states (TaskStatusUpdate t s p m # es) = s # status_states es"
| "status_states (AgentTextMessage x # es) = status_states es"
| "status_states (ArtifactUpdate t a # es) = status_states es"

definition is_terminal :: "task_state \<Rightarrow> bool" where
  "is_terminal s = (s = Completed \<or> s = Cancelled \<or> s = Failed)"

text \<open>The terminal state a sequence of events reports first, if it reports one.\<close>

definition terminal_state :: "event list \<Rightarrow> task_state option" where
  "terminal_state evs =
     (case filter is_terminal (status_states evs) of [] \<Rightarrow> None | s # ss \<Rightarrow> Some s)"


fun is_status_with :: "task_state \<Rightarrow> real \<Rightarrow> event \<Rightarrow> bool" where
  "is_status_with s p (TaskStatusUpdate t s' p' m) = (s' = s \<and> p' = p)"
| "is_status_with s p (AgentTextMessage x) = False"
| "is_status_with s p (ArtifactUpdate t a) = False"

text \<open>
  The task id an event carries. A text message is the value of
  \<^verbatim>\<open>new_agent_text_message(text)\<close>: the call passes no task id.
\<close>

fun event_taskId :: "event \<Rightarrow> string option" where
  "event_taskId (TaskStatusUpdate t s p m) = Some t"
| "event_taskId (AgentTextMessage x) = None"
| "event_taskId (ArtifactUpdate t a) = Some t"

definition carries_taskId :: "string \<Rightarrow> event \<Rightarrow> bool" where
  "carries_taskId t e = (event_taskId e = Some t)"

datatype event_kind = StatusKind | MessageKind | ArtifactKind

fun kind_of :: "event \<Rightarrow> event_kind" where
  "kind_of (TaskStatusUpdate t s p m) = StatusKind"
| "kind_of (AgentTextMessage x) = MessageKind"
| "kind_of (ArtifactUpdate t a) = ArtifactKind"

fun artifacts :: "event list \<Rightarrow> artifact list" where
  "artifacts [] = []"
| "artifacts (TaskStatusUpdate t s p m # es) = artifacts es"
| "artifacts (AgentTextMessage x # es) = artifacts es"
| "artifacts (ArtifactUpdate t a # es) = a # artifacts es"

section \<open>Schedules\<close>

text \<open>
  \<^verbatim>\<open>cancel\<close> called while \<^verbatim>\<open>execute\<close> is suspended at its \<open>k\<close>-th await: the
  first \<open>k\<close> operations of \<^verbatim>\<open>execute\<close>, then those of \<^verbatim>\<open>cancel\<close>, then the rest
  of \<^verbatim>\<open>execute\<close>.
\<close>

definition cancel_at :: "nat \<Rightarrow> request_context \<Rightarrow> action list" where
  "cancel_at k ctx = take k (execute ctx) @ cancel ctx @ drop k (execute ctx)"

section \<open>Sample inputs\<close>

text \<open>A request whose message has the single text part \<^verbatim>\<open>ping\<close>.\<close>

definition ping_context :: request_context where
  "ping_context =
     \<lparr>ctx_request = Some \<lparr>req_message = Some \<lparr>msg_content = None,
        msg_parts = Some [\<lparr>part_text = Some ''ping''\<rparr>]\<rparr>\<rparr>,
      request_id = ''req-1''\<rparr>"

text \<open>A context with no request at all: the default message is used.\<close>

definition bare_context :: request_context where
  "bare_context = \<lparr>ctx_request = None, request_id = ''req-2''\<rparr>"

section \<open>Running coroutines\<close>

lemma enqueued_append: "enqueued (xs @ ys) = enqueued xs @ enqueued ys"
  by (induction xs rule: enqueued.induct) simp_all

lemma progress_values_append:
  "progress_values (xs @ ys) = progress_values xs @ progress_values ys"
  by (induction xs rule: progress_values.induct) simp_all

lemma status_states_append:
  "status_states (xs @ ys) = status_states xs @ status_states ys"
  by (induction xs rule: status_states.induct) simp_all

text \<open>On an open queue, operations other than \<open>Close\<close> all succeed and append their events.\<close>

lemma run_open:
  "\<not> closed q \<Longrightarrow> Close \<notin> set as \<Longrightarrow>
     run as q = (Inr (), q\<lparr>buffer := buffer q @ enqueued as\<rparr>)"
proof (induction as arbitrary: q)
  case Nil
  then show ?case by simp
next
  case (Cons a as)
  then show ?case by (cases a) (simp_all add: enqueue_event_def)
qed

lemma close_closed: "closed q \<Longrightarrow> q\<lparr>closed := True\<rparr> = q"
  by (cases q) simp

text \<open>On a closed queue, the first publish raises and nothing is appended.\<close>

lemma run_closed:
  "closed q \<Longrightarrow>
     run as q = (if enqueued as = [] then (Inr (), q) else (Inl ChannelClosed, q))"
proof (induction as arbitrary: q)
  case Nil
  then show ?case by simp
next
  case (Cons a as)
  then show ?case
    by (cases a) (simp_all add: enqueue_event_def close_def close_closed)
qed

lemma run_append:
  "run (xs @ ys) q =
     (case run xs q of (Inl err, q') \<Rightarrow> (Inl err, q') | (Inr u, q') \<Rightarrow> run ys q')"
proof (induction xs arbitrary: q)
  case Nil
  then show ?case by simp
next
  case (Cons a as)
  then show ?case
    by (cases a) (simp_all add: enqueue_event_def close_def split: sum.splits prod.splits)
qed

lemma emitted_append: "emitted q (r, q\<lparr>buffer := buffer q @ es\<rparr>) = es"
  by (simp add: emitted_def)

lemma emitted_same: "emitted q (r, q) = []"
  by (simp add: emitted_def)

section \<open>What \<open>execute\<close> enqueues\<close>

lemma no_close_execute: "Close \<notin> set (execute ctx)"
  by (simp add: execute_def streaming_responses_def Let_def)


lemma last_execute:
  "last (execute ctx) =
     Enqueue (TaskStatusUpdate (request_id ctx) Completed 1 ''Task completed successfully'')"
  by (simp add: execute_def Let_def)

lemma length_execute: "length (execute ctx) = 21"
  by (simp add: execute_def streaming_responses_def Let_def)

lemma length_enqueued_execute: "length (enqueued (execute ctx)) = 12"
  by (simp add: execute_def streaming_responses_def Let_def)

lemma enqueued_execute_nonempty: "enqueued (execute ctx) \<noteq> []"
  by (simp add: execute_def Let_def)

lemma kinds_execute:
  "map kind_of (enqueued (execute ctx)) =
     [StatusKind, MessageKind, StatusKind, MessageKind, StatusKind, MessageKind,
      StatusKind, MessageKind, ArtifactKind, StatusKind, MessageKind, StatusKind]"
  by (simp add: execute_def streaming_responses_def artifact_event_def Let_def)

lemma progress_execute:
  "progress_values (enqueued (execute ctx)) = [0.1, 0.3, 0.5, 0.7, 0.9, 1]"
  by (simp add: execute_def streaming_responses_def artifact_event_def Let_def)

lemma states_execute:
  "status_states (enqueued (execute ctx)) =
     [Running, Running, Running, Running, Running, Completed]"
  by (simp add: execute_def streaming_responses_def artifact_event_def Let_def)

lemma taskIds_execute:
  "map event_taskId (enqueued (execute ctx)) =
     [Some (request_id ctx), None, Some (request_id ctx), None, Some (request_id ctx), None,
      Some (request_id ctx), None, Some (request_id ctx), Some (request_id ctx), None,
      Some (request_id ctx)]"
  by (simp add: execute_def streaming_responses_def artifact_event_def Let_def)

lemma artifacts_execute:
  "map (\<lambda>a. (artifact_id a, artifact_name a, artifact_type a)) (artifacts (enqueued (execute ctx))) =
     [(''artifact_5'', ''analysis_report.md'', ''text/markdown'')]"
  by (simp add: execute_def streaming_responses_def artifact_event_def Let_def str_nat.simps)

lemma hd_enqueued_execute:
  "hd (enqueued (execute ctx)) =
     TaskStatusUpdate (request_id ctx) Running 0.1 ''Task started - analyzing request''"
  by (simp add: execute_def Let_def)

lemma last_enqueued_execute:
  "last (enqueued (execute ctx)) =
     TaskStatusUpdate (request_id ctx) Completed 1 ''Task completed successfully''"
  by (simp add: execute_def enqueued_append Let_def)


lemma cancel_message_not_in_execute:
  "AgentTextMessage ''Task cancelled'' \<notin> set (enqueued (execute ctx))"
  by (simp add: execute_def streaming_responses_def artifact_event_def Let_def)

lemma run_execute:
  "\<not> closed q \<Longrightarrow>
     run (execute ctx) q = (Inr (), q\<lparr>buffer := buffer q @ enqueued (execute ctx)\<rparr>)"
  by (rule run_open [OF _ no_close_execute])

lemma emitted_execute:
  "\<not> closed q \<Longrightarrow> emitted q (run (execute ctx) q) = enqueued (execute ctx)"
  by (simp add: run_execute emitted_append)


lemma run_execute_closed:
  "closed q \<Longrightarrow> run (execute ctx) q = (Inl ChannelClosed, q)"
  by (simp add: run_closed enqueued_execute_nonempty)

lemma set_enqueued_take: "set (enqueued (take k as)) \<subseteq> set (enqueued as)"
proof -
  have "enqueued as = enqueued (take k as) @ enqueued (drop k as)"
    by (simp flip: enqueued_append)
  then show ?thesis by simp
qed

lemma enqueued_last: "as \<noteq> [] \<Longrightarrow> last as = Enqueue e \<Longrightarrow> enqueued as \<noteq> []"
proof -
  assume a: "as \<noteq> []" and l: "last as = Enqueue e"
  from a have "as = butlast as @ [last as]" by simp
  with l have "enqueued as = enqueued (butlast as) @ [e]"
    by (metis enqueued.simps(1,2) enqueued_append)
  then show ?thesis by simp
qed

lemma enqueued_drop_execute:
  "k < length (execute ctx) \<Longrightarrow> enqueued (drop k (execute ctx)) \<noteq> []"
  by (rule enqueued_last [where e = "TaskStatusUpdate (request_id ctx) Completed 1 ''Task completed successfully''"])
     (simp_all add: last_drop last_execute)

lemma run_cancel_at:
  assumes "\<not> closed q"
  shows "run (cancel_at k ctx) q =
    (Inr (), q\<lparr>buffer := buffer q @ enqueued (take k (execute ctx)) @
       AgentTextMessage ''Task cancelled'' # enqueued (drop k (execute ctx))\<rparr>)"
proof -
  have "Close \<notin> set (cancel_at k ctx)"
    using no_close_execute [of ctx] by (auto simp: cancel_at_def cancel_def dest: in_set_takeD in_set_dropD)
  from run_open [OF assms this] show ?thesis
    by (simp add: cancel_at_def cancel_def enqueued_append)
qed

lemma states_take_drop:
  "status_states (enqueued (take k as)) @ status_states (enqueued (drop k as)) =
     status_states (enqueued as)"
  by (simp flip: enqueued_append status_states_append)

lemma states_execute_split:
  "status_states (enqueued (take k (execute ctx)) @ AgentTextMessage x # enqueued (drop k (execute ctx)))
     = [Running, Running, Running, Running, Running, Completed]"
  by (simp add: status_states_append states_take_drop states_execute)

lemma remove1_cancel_message:
  "remove1 (AgentTextMessage ''Task cancelled'')
     (enqueued (take k (execute ctx)) @ AgentTextMessage ''Task cancelled'' # enqueued (drop k (execute ctx)))
   = enqueued (execute ctx)"
proof -
  have "AgentTextMessage ''Task cancelled'' \<notin> set (enqueued (take k (execute ctx)))"
    using cancel_message_not_in_execute [of ctx] set_enqueued_take [of k "execute ctx"] by blast
  then have "remove1 (AgentTextMessage ''Task cancelled'')
     (enqueued (take k (execute ctx)) @ AgentTextMessage ''Task cancelled'' # enqueued (drop k (execute ctx)))
     = enqueued (take k (execute ctx)) @ enqueued (drop k (execute ctx))"
    by (simp add: remove1_append)
  then show ?thesis by (simp flip: enqueued_append)
qed

lemma closed_new_queue: "\<not> closed new_queue"
  by (simp add: new_queue_def)

lemma buffer_new_queue: "buffer new_queue = []"
  by (simp add: new_queue_def)

section \<open>Progress and terminal state\<close>

text \<open>
  C1: for every execution of \<^verbatim>\<open>execute\<close>, on any queue, the progress values of the
  status updates it emits are non-decreasing in emission order, and the sequence
  ends at exactly 1.0 if and only if the terminal state the events report is
  \<open>Completed\<close>. On an open queue both sides hold; on a closed queue the first
  publish raises, nothing is emitted and neither side holds.
\<close>

theorem progress_nondecreasing_ends_at_one:
  "sorted (progress_values (emitted q (run (execute ctx) q))) \<and>
   ((progress_values (emitted q (run (execute ctx) q)) \<noteq> [] \<and>
     last (progress_values (emitted q (run (execute ctx) q))) = 1) =
    (terminal_state (emitted q (run (execute ctx) q)) = Some Completed))"
proof (cases "closed q")
  case True
  then show ?thesis
    by (simp add: run_execute_closed emitted_same terminal_state_def)
next
  case False
  then show ?thesis
    by (simp add: emitted_execute progress_execute terminal_state_def states_execute
        is_terminal_def)
qed







section \<open>Cancellation\<close>

text \<open>
  C4 fails as stated: with \<^verbatim>\<open>cancel\<close> called right after the first event of
  \<^verbatim>\<open>execute\<close>, the events still report the terminal state \<open>Completed\<close>, and the
  channel is not closed.
\<close>

theorem cancel_ignored_counterexample:
  "terminal_state (emitted new_queue (run (cancel_at 1 ping_context) new_queue)) = Some Completed \<and>
   \<not> closed (snd (run (cancel_at 1 ping_context) new_queue))"
proof -
  have o: "\<not> closed new_queue" by (simp add: new_queue_def)
  show ?thesis
    by (simp add: run_cancel_at [OF o] emitted_append terminal_state_def states_execute_split
        is_terminal_def o)
qed

text \<open>
  C4 (as amended): when \<^verbatim>\<open>cancel\<close> is called at any await of \<^verbatim>\<open>execute\<close> before
  its last publish, on an open queue, a message noting the cancellation
  ("Task cancelled") is emitted at that point; \<^verbatim>\<open>execute\<close> goes on with all its
  remaining steps, the task ends in state \<open>Completed\<close>, its last event being the
  status update with state \<open>Completed\<close> and progress 1.0, no status update with
  state \<open>Cancelled\<close> is emitted, no exception is raised and the channel is left
  open.
\<close>

theorem cancel_during_execute:
  "\<not> closed q \<Longrightarrow> k < length (execute ctx) \<Longrightarrow>
     emitted q (run (cancel_at k ctx) q) =
       enqueued (take k (execute ctx)) @ AgentTextMessage ''Task cancelled'' #
       enqueued (drop k (execute ctx)) \<and>
     terminal_state (emitted q (run (cancel_at k ctx) q)) = Some Completed \<and>
     is_status_with Completed 1 (last (emitted q (run (cancel_at k ctx) q))) \<and>
     Cancelled \<notin> set (status_states (emitted q (run (cancel_at k ctx) q))) \<and>
     fst (run (cancel_at k ctx) q) = Inr () \<and>
     \<not> closed (snd (run (cancel_at k ctx) q))"
proof -
  assume o: "\<not> closed q" and k: "k < length (execute ctx)"
  have "last (enqueued (drop k (execute ctx))) = last (enqueued (execute ctx))"
    using enqueued_drop_execute [OF k] last_appendR [of "enqueued (drop k (execute ctx))"
        "enqueued (take k (execute ctx))"]
    by (simp flip: enqueued_append)
  then have "is_status_with Completed 1 (last (enqueued (drop k (execute ctx))))"
    by (simp add: last_enqueued_execute)
  then show ?thesis
    by (simp add: run_cancel_at [OF o] emitted_append terminal_state_def states_execute_split
        is_terminal_def enqueued_drop_execute [OF k] o)
qed

theorem cancel_during_execute_witness:
  "\<not> closed new_queue \<and> 3 < length (execute ping_context) \<and>
     emitted new_queue (run (cancel_at 3 ping_context) new_queue) =
       enqueued (take 3 (execute ping_context)) @ AgentTextMessage ''Task cancelled'' #
       enqueued (drop 3 (execute ping_context)) \<and>
     terminal_state (emitted new_queue (run (cancel_at 3 ping_context) new_queue)) = Some Completed \<and>
     is_status_with Completed 1 (last (emitted new_queue (run (cancel_at 3 ping_context) new_queue))) \<and>
     Cancelled \<notin> set (status_states (emitted new_queue (run (cancel_at 3 ping_context) new_queue))) \<and>
     fst (run (cancel_at 3 ping_context) new_queue) = Inr () \<and>
     \<not> closed (snd (run (cancel_at 3 ping_context) new_queue))"
proof -
  have k: "3 < length (execute ping_context)" by (simp add: length_execute)
  from cancel_during_execute [OF closed_new_queue k] closed_new_queue k show ?thesis
    by blast
qed

text \<open>
  C7 fails as stated: with \<^verbatim>\<open>cancel\<close> called between the first and the second
  iteration of the loop (the sixth await), the eight events of the remaining
  steps are emitted exactly as without it.
\<close>

theorem no_cancellation_check_counterexample:
  "drop 5 (emitted new_queue (run (cancel_at 6 bare_context) new_queue)) =
     drop 4 (emitted new_queue (run (execute bare_context) new_queue)) \<and>
   length (drop 4 (emitted new_queue (run (execute bare_context) new_queue))) = 8"
proof -
  have t: "length (enqueued (take 6 (execute bare_context))) = 4"
    by (simp add: execute_def streaming_responses_def Let_def)
  have s: "enqueued (execute bare_context) =
      enqueued (take 6 (execute bare_context)) @ enqueued (drop 6 (execute bare_context))"
    by (simp flip: enqueued_append)
  have a: "drop 5 (enqueued (take 6 (execute bare_context)) @
        AgentTextMessage ''Task cancelled'' # enqueued (drop 6 (execute bare_context))) =
      enqueued (drop 6 (execute bare_context))"
    by (simp add: t)
  have b: "drop 4 (enqueued (execute bare_context)) = enqueued (drop 6 (execute bare_context))"
    by (subst s) (simp add: t)
  have c: "length (drop 4 (enqueued (execute bare_context))) = 8"
    by (simp add: length_enqueued_execute)
  have e1: "emitted new_queue (run (cancel_at 6 bare_context) new_queue) =
      enqueued (take 6 (execute bare_context)) @
        AgentTextMessage ''Task cancelled'' # enqueued (drop 6 (execute bare_context))"
    by (simp add: run_cancel_at [OF closed_new_queue] emitted_append)
  have e2: "emitted new_queue (run (execute bare_context) new_queue) =
      enqueued (execute bare_context)"
    by (rule emitted_execute [OF closed_new_queue])
  show ?thesis
    unfolding e1 e2 using a b c by simp
qed

text \<open>
  C7 (as amended): \<^verbatim>\<open>execute\<close> checks for no cancellation signal at any step
  boundary. When \<^verbatim>\<open>cancel\<close> is called at any await of \<^verbatim>\<open>execute\<close> on an open
  queue, every remaining step still runs and emits its events, and apart from the
  message of \<^verbatim>\<open>cancel\<close> the events are those of an undisturbed execution.
\<close>

theorem cancel_leaves_steps_unchanged:
  "\<not> closed q \<Longrightarrow>
     drop (Suc (length (enqueued (take k (execute ctx))))) (emitted q (run (cancel_at k ctx) q)) =
       enqueued (drop k (execute ctx)) \<and>
     remove1 (AgentTextMessage ''Task cancelled'') (emitted q (run (cancel_at k ctx) q)) =
       emitted q (run (execute ctx) q)"
  by (simp add: run_cancel_at emitted_append remove1_cancel_message emitted_execute)

theorem cancel_leaves_steps_unchanged_witness:
  "\<not> closed new_queue \<and>
     drop (Suc (length (enqueued (take 8 (execute ping_context)))))
       (emitted new_queue (run (cancel_at 8 ping_context) new_queue)) =
       enqueued (drop 8 (execute ping_context)) \<and>
     remove1 (AgentTextMessage ''Task cancelled'')
       (emitted new_queue (run (cancel_at 8 ping_context) new_queue)) =
       emitted new_queue (run (execute ping_context) new_queue)"
  using cancel_leaves_steps_unchanged [OF closed_new_queue, of 8 ping_context] closed_new_queue
  by blast

text \<open>
  C10: on an open queue \<^verbatim>\<open>cancel\<close>, for every request context, enqueues exactly
  one event, the text message "Task cancelled"; it enqueues no status update,
  raises nothing and leaves the channel open. The queue is all it changes.
\<close>

theorem cancel_enqueues_one_message:
  "\<not> closed q \<Longrightarrow>
     run (cancel ctx) q =
       (Inr (), q\<lparr>buffer := buffer q @ [AgentTextMessage ''Task cancelled'']\<rparr>) \<and>
     emitted q (run (cancel ctx) q) = [AgentTextMessage ''Task cancelled''] \<and>
     status_states (emitted q (run (cancel ctx) q)) = [] \<and>
     \<not> closed (snd (run (cancel ctx) q))"
  by (simp add: cancel_def enqueue_event_def emitted_def)

theorem cancel_enqueues_one_message_witness:
  "\<not> closed new_queue \<and>
     run (cancel ping_context) new_queue =
       (Inr (), new_queue\<lparr>buffer := buffer new_queue @ [AgentTextMessage ''Task cancelled'']\<rparr>) \<and>
     emitted new_queue (run (cancel ping_context) new_queue) = [AgentTextMessage ''Task cancelled''] \<and>
     status_states (emitted new_queue (run (cancel ping_context) new_queue)) = [] \<and>
     \<not> closed (snd (run (cancel ping_context) new_queue))"
  using cancel_enqueues_one_message [OF closed_new_queue, of ping_context] closed_new_queue
  by blast

section \<open>First and last event\<close>

text \<open>
  C5 fails as stated: the first event of \<^verbatim>\<open>execute\<close> is not a status update with
  state \<open>Running\<close> and progress 0.0.
\<close>

theorem first_event_counterexample:
  "\<not> is_status_with Running 0 (hd (emitted new_queue (run (execute ping_context) new_queue)))"
  by (simp add: emitted_execute [OF closed_new_queue] hd_enqueued_execute)

text \<open>
  C5 (as amended): on an open queue the first event \<^verbatim>\<open>execute\<close> emits is a status
  update with state \<open>Running\<close> and progress exactly 0.1.
\<close>

theorem first_event_running_tenth:
  "\<not> closed q \<Longrightarrow>
     emitted q (run (execute ctx) q) \<noteq> [] \<and>
     hd (emitted q (run (execute ctx) q)) =
       TaskStatusUpdate (request_id ctx) Running 0.1 ''Task started - analyzing request''"
  by (simp add: emitted_execute enqueued_execute_nonempty hd_enqueued_execute)

theorem first_event_running_tenth_witness:
  "\<not> closed new_queue \<and>
     emitted new_queue (run (execute bare_context) new_queue) \<noteq> [] \<and>
     hd (emitted new_queue (run (execute bare_context) new_queue)) =
       TaskStatusUpdate (request_id bare_context) Running 0.1 ''Task started - analyzing request''"
  using first_event_running_tenth [OF closed_new_queue, of bare_context] closed_new_queue
  by blast

text \<open>
  C8 fails as stated: after a successful run, whose last event is the status
  update with state \<open>Completed\<close> and progress 1.0, the channel is not closed.
\<close>

theorem channel_left_open_counterexample:
  "is_status_with Completed 1 (last (emitted new_queue (run (execute bare_context) new_queue))) \<and>
   \<not> closed (snd (run (execute bare_context) new_queue))"
  by (simp add: run_execute [OF closed_new_queue] emitted_append
      last_enqueued_execute closed_new_queue)

text \<open>
  C8 (as amended): on an open queue \<^verbatim>\<open>execute\<close> finishes without an exception, the
  last event it emits is the status update with state \<open>Completed\<close> and progress
  exactly 1.0, and it returns with the channel still open: it does not close it.
\<close>

theorem last_event_completed:
  "\<not> closed q \<Longrightarrow>
     emitted q (run (execute ctx) q) \<noteq> [] \<and>
     last (emitted q (run (execute ctx) q)) =
       TaskStatusUpdate (request_id ctx) Completed 1 ''Task completed successfully'' \<and>
     fst (run (execute ctx) q) = Inr () \<and>
     \<not> closed (snd (run (execute ctx) q))"
  by (simp add: run_execute emitted_append enqueued_execute_nonempty last_enqueued_execute)

theorem last_event_completed_witness:
  "\<not> closed new_queue \<and>
     emitted new_queue (run (execute ping_context) new_queue) \<noteq> [] \<and>
     last (emitted new_queue (run (execute ping_context) new_queue)) =
       TaskStatusUpdate (request_id ping_context) Completed 1 ''Task completed successfully'' \<and>
     fst (run (execute ping_context) new_queue) = Inr () \<and>
     \<not> closed (snd (run (execute ping_context) new_queue))"
  using last_event_completed [OF closed_new_queue, of ping_context] closed_new_queue
  by blast

section \<open>Task ids\<close>

lemma get_message_request_id: "get_message (ctx\<lparr>request_id := r\<rparr>) = get_message ctx"
  by (simp add: get_message_def)

lemma messages_execute_request_id:
  "filter (\<lambda>e. kind_of e = MessageKind) (enqueued (execute (ctx\<lparr>request_id := r\<rparr>))) =
     filter (\<lambda>e. kind_of e = MessageKind) (enqueued (execute ctx))"
  by (simp add: execute_def streaming_responses_def artifact_event_def Let_def
      get_message_request_id)

text \<open>
  C6 fails as stated: not every event \<^verbatim>\<open>execute\<close> emits carries the id of the
  request.
\<close>

theorem message_taskId_counterexample:
  "\<not> list_all (carries_taskId (request_id ping_context))
       (emitted new_queue (run (execute ping_context) new_queue))"
proof
  assume "list_all (carries_taskId (request_id ping_context))
       (emitted new_queue (run (execute ping_context) new_queue))"
  then have "list_all (\<lambda>t. t = Some (request_id ping_context))
      (map event_taskId (enqueued (execute ping_context)))"
    by (simp add: emitted_execute [OF closed_new_queue] list_all_iff carries_taskId_def)
  then show False
    by (simp add: taskIds_execute)
qed

text \<open>
  C6 (as amended): every status update and artifact update \<^verbatim>\<open>execute\<close> emits
  carries the task id \<^verbatim>\<open>context.request_id\<close>; the text messages carry no task
  id, and are the same whatever the request id is.
\<close>

theorem taskIds_of_events:
  "\<not> closed q \<Longrightarrow>
     map event_taskId (emitted q (run (execute ctx) q)) =
       [Some (request_id ctx), None, Some (request_id ctx), None, Some (request_id ctx), None,
        Some (request_id ctx), None, Some (request_id ctx), Some (request_id ctx), None,
        Some (request_id ctx)] \<and>
     map kind_of (emitted q (run (execute ctx) q)) =
       [StatusKind, MessageKind, StatusKind, MessageKind, StatusKind, MessageKind,
        StatusKind, MessageKind, ArtifactKind, StatusKind, MessageKind, StatusKind] \<and>
     filter (\<lambda>e. kind_of e = MessageKind)
         (emitted q (run (execute (ctx\<lparr>request_id := r\<rparr>)) q)) =
       filter (\<lambda>e. kind_of e = MessageKind) (emitted q (run (execute ctx) q))"
  by (simp add: emitted_execute taskIds_execute kinds_execute messages_execute_request_id)

theorem taskIds_of_events_witness:
  "\<not> closed new_queue \<and>
     map event_taskId (emitted new_queue (run (execute ping_context) new_queue)) =
       [Some (request_id ping_context), None, Some (request_id ping_context), None,
        Some (request_id ping_context), None, Some (request_id ping_context), None,
        Some (request_id ping_context), Some (request_id ping_context), None,
        Some (request_id ping_context)] \<and>
     map kind_of (emitted new_queue (run (execute ping_context) new_queue)) =
       [StatusKind, MessageKind, StatusKind, MessageKind, StatusKind, MessageKind,
        StatusKind, MessageKind, ArtifactKind, StatusKind, MessageKind, StatusKind] \<and>
     filter (\<lambda>e. kind_of e = MessageKind)
         (emitted new_queue (run (execute (ping_context\<lparr>request_id := ''req-9''\<rparr>)) new_queue)) =
       filter (\<lambda>e. kind_of e = MessageKind)
         (emitted new_queue (run (execute ping_context) new_queue))"
  using taskIds_of_events [OF closed_new_queue, of ping_context "''req-9''"] closed_new_queue
  by blast

section \<open>The sequence of events\<close>

text \<open>
  C9 fails as stated: \<^verbatim>\<open>execute\<close> does not enqueue 13 events, and not 6 text
  messages.
\<close>

theorem thirteen_events_counterexample:
  "length (emitted new_queue (run (execute ping_context) new_queue)) \<noteq> 13 \<and>
   length (filter (\<lambda>k. k = MessageKind)
     (map kind_of (emitted new_queue (run (execute ping_context) new_queue)))) \<noteq> 6"
  by (simp add: emitted_execute [OF closed_new_queue] length_enqueued_execute kinds_execute)

text \<open>
  C9 (as amended): for every request context, on an open queue, \<^verbatim>\<open>execute\<close>
  enqueues exactly 12 events in a fixed order of kinds that does not depend on
  the input: 6 status updates with progress values 0.1, 0.3, 0.5, 0.7, 0.9, 1.0
  in that order, 5 text messages, and exactly 1 artifact update, with artifact id
  "artifact_5", name "analysis_report.md" and type "text/markdown".
\<close>

theorem execute_event_sequence:
  "\<not> closed q \<Longrightarrow>
     length (emitted q (run (execute ctx) q)) = 12 \<and>
     map kind_of (emitted q (run (execute ctx) q)) =
       [StatusKind, MessageKind, StatusKind, MessageKind, StatusKind, MessageKind,
        StatusKind, MessageKind, ArtifactKind, StatusKind, MessageKind, StatusKind] \<and>
     progress_values (emitted q (run (execute ctx) q)) = [0.1, 0.3, 0.5, 0.7, 0.9, 1.0] \<and>
     map (\<lambda>a. (artifact_id a, artifact_name a, artifact_type a))
         (artifacts (emitted q (run (execute ctx) q))) =
       [(''artifact_5'', ''analysis_report.md'', ''text/markdown'')]"
  by (simp add: emitted_execute length_enqueued_execute kinds_execute progress_execute
      artifacts_execute)

theorem execute_event_sequence_witness:
  "\<not> closed new_queue \<and>
     length (emitted new_queue (run (execute ping_context) new_queue)) = 12 \<and>
     map kind_of (emitted new_queue (run (execute ping_context) new_queue)) =
       [StatusKind, MessageKind, StatusKind, MessageKind, StatusKind, MessageKind,
        StatusKind, MessageKind, ArtifactKind, StatusKind, MessageKind, StatusKind] \<and>
     progress_values (emitted new_queue (run (execute ping_context) new_queue)) =
       [0.1, 0.3, 0.5, 0.7, 0.9, 1.0] \<and>
     map (\<lambda>a. (artifact_id a, artifact_name a, artifact_type a))
         (artifacts (emitted new_queue (run (execute ping_context) new_queue))) =
       [(''artifact_5'', ''analysis_report.md'', ''text/markdown'')]"
  using execute_event_sequence [OF closed_new_queue, of ping_context] closed_new_queue
  by blast

end
